theory Spec2Isabelle
  imports Main "HOL-Library.AList"
begin

section \<open>JavaScript values\<close>

text \<open>
  The catalog's record files and the session files are JSON documents. A payload of
  type \<open>any\<close> is a JSON value; numbers are integers here, since only their being zero
  or not is ever tested. The own properties of a JavaScript object are an association
  list in insertion order with distinct keys: \<open>map_of\<close> reads an own property (\<open>None\<close>
  is \<open>undefined\<close>) and \<open>AList.update\<close> assigns one (in place for an existing key, at
  the end for a new one).
\<close>

datatype json =
    JNull
  | JBool bool
  | JNum int
  | JStr string
  | JArr "json list"
  | JObj "(string \<times> json) list"

text \<open>The test \<open>if (v)\<close>: \<open>undefined\<close>, \<open>null\<close>, \<open>false\<close>, \<open>0\<close> and \<open>""\<close> are falsy.\<close>

fun truthy :: "json option \<Rightarrow> bool" where
  "truthy None = False"
| "truthy (Some JNull) = False"
| "truthy (Some (JBool b)) = b"
| "truthy (Some (JNum n)) = (n \<noteq> 0)"
| "truthy (Some (JStr s)) = (s \<noteq> [])"
| "truthy (Some (JArr xs)) = True"
| "truthy (Some (JObj kvs)) = True"

text \<open>Optional chaining \<open>v?.k\<close>: \<open>undefined\<close> unless \<open>v\<close> is an object that has \<open>k\<close>.\<close>

fun get_prop :: "json option \<Rightarrow> string \<Rightarrow> json option" where
  "get_prop (Some (JObj kvs)) k = map_of kvs k"
| "get_prop v k = None"

section \<open>Strings\<close>

text \<open>
  A character is a code unit in the range U+0000 to U+00FF. \<open>toLowerCase\<close> maps
  \<open>A\<close> to \<open>Z\<close> and the capital letters of Latin-1 (U+00C0 to U+00DE without
  U+00D7) to the letter 32 places further.
\<close>

definition toLowerChar :: "char \<Rightarrow> char" where
  "toLowerChar c =
     (let n = (of_char c :: nat)
      in if (65 \<le> n \<and> n \<le> 90) \<or> (192 \<le> n \<and> n \<le> 222 \<and> n \<noteq> 215)
         then char_of (n + 32) else c)"

definition toLowerCase :: "string \<Rightarrow> string" where
  "toLowerCase s = map toLowerChar s"

fun startsWith :: "string \<Rightarrow> string \<Rightarrow> bool" where
  "startsWith s [] = True"
| "startsWith [] (k # ks) = False"
| "startsWith (c # s) (k # ks) = (c = k \<and> startsWith s ks)"

text \<open>\<open>s.includes(k)\<close>: \<open>k\<close> occurs in \<open>s\<close> as a contiguous substring.\<close>

fun includes_str :: "string \<Rightarrow> string \<Rightarrow> bool" where
  "includes_str [] k = (k = [])"
| "includes_str (c # s) k = (startsWith (c # s) k \<or> includes_str s k)"

definition endsWith :: "string \<Rightarrow> string \<Rightarrow> bool" where
  "endsWith s k = (length k \<le> length s \<and> drop (length s - length k) s = k)"

section \<open>Item records and categories\<close>

text \<open>The interface \<open>Item\<close>; the field \<open>id\<close> is \<open>item_id\<close> here.\<close>

record item =
  item_id :: string
  name :: string
  attributeBlocks :: "(string \<times> json) list"
  parts :: "json list"

text \<open>The category strings that the classification returns.\<close>

datatype category =
    Weapon
  | Armor
  | Spell
  | Treasure
  | Large_treasure
  | Great_treasure
  | Native
  | Other

subsection \<open>The name heuristic\<close>

definition categorizeItemByName :: "string \<Rightarrow> category" where
  "categorizeItemByName itemName =
     (let name = toLowerCase itemName in
      if includes_str name ''bow'' \<or> includes_str name ''sword'' \<or> includes_str name ''axe'' \<or>
         includes_str name ''spear'' \<or> includes_str name ''mace'' \<or> includes_str name ''staff'' \<or>
         includes_str name ''crossbow'' \<or> includes_str name ''halberd'' \<or>
         includes_str name ''broadsword'' \<or> includes_str name ''great sword'' \<or>
         includes_str name ''great axe'' \<or> includes_str name ''morning star'' \<or>
         includes_str name ''thrusting sword'' \<or> includes_str name ''short sword''
      then Weapon
      else if includes_str name ''armor'' \<or> includes_str name ''shield'' \<or>
         includes_str name ''helmet'' \<or> includes_str name ''breastplate'' \<or>
         includes_str name ''greaves'' \<or> includes_str name ''gauntlets''
      then Armor
      else if includes_str name ''peace with nature'' \<or> includes_str name ''type vii'' \<or>
         includes_str name ''type vi'' \<or> includes_str name ''type v'' \<or>
         includes_str name ''type iv'' \<or> includes_str name ''type iii'' \<or>
         includes_str name ''type ii'' \<or> includes_str name ''type i''
      then Spell
      else if includes_str name ''great'' \<and>
         (includes_str name ''treasure'' \<or> includes_str name ''sword'' \<or>
          includes_str name ''axe'' \<or> includes_str name ''armor'')
      then Great_treasure
      else if includes_str name ''treasure'' \<or> includes_str name ''gold'' \<or>
         includes_str name ''jewel'' \<or> includes_str name ''gem'' \<or> includes_str name ''coin''
      then Treasure
      else if includes_str name ''native'' \<or> includes_str name ''guard'' \<or>
         includes_str name ''mercenary'' \<or> includes_str name ''lancer'' \<or>
         includes_str name ''dwarf'' \<or> includes_str name ''elf''
      then Native
      else Other)"

subsection \<open>The runtime item cache and the structural rules\<close>

text \<open>
  The page's state \<open>itemCache\<close> maps a name to what a lookup stored under it: a
  record, or the \<open>null\<close> or \<open>undefined\<close> that the lookup's answer held as its item.
  \<open>cache_get\<close> is \<open>itemCache[name]\<close> read for its truth value: a record is truthy,
  the rest is falsy. The cache is read here at its own properties, the names of item
  records; a read at a name that only \<open>Object.prototype\<close> defines is not part of
  this model of the page.
\<close>

datatype cached_value = Null | Undefined | Item item

type_synonym item_cache = "(string \<times> cached_value) list"

definition cache_get :: "item_cache \<Rightarrow> string \<Rightarrow> item option" where
  "cache_get itemCache k = (case map_of itemCache k of Some (Item r) \<Rightarrow> Some r | _ \<Rightarrow> None)"

text \<open>
  \<open>cached.attributeBlocks.k\<close>, and a block: a structured payload, an object or an
  array, under the name \<open>k\<close>.
\<close>

definition block :: "item \<Rightarrow> string \<Rightarrow> json option" where
  "block cached k = map_of (attributeBlocks cached) k"

definition has_block :: "item \<Rightarrow> string \<Rightarrow> bool" where
  "has_block cached k =
     (case block cached k of Some (JObj kvs) \<Rightarrow> True | Some (JArr xs) \<Rightarrow> True | _ \<Rightarrow> False)"

definition getItemCategory :: "item_cache \<Rightarrow> string \<Rightarrow> category" where
  "getItemCategory itemCache itemName =
     (case cache_get itemCache itemName of
        Some cached \<Rightarrow>
          (let this = block cached ''this'' in
           if truthy (block cached ''intact'') \<and> truthy (block cached ''damaged'') then Armor
           else if truthy (block cached ''unalerted'') \<and> truthy (block cached ''alerted'') then Weapon
           else if truthy (get_prop this ''spell'') then Spell
           else if truthy (get_prop this ''base_price'')
             then (if get_prop this ''treasure'' = Some (JStr ''large'') then Large_treasure
                   else Treasure)
           else categorizeItemByName itemName)
      | None \<Rightarrow> categorizeItemByName itemName)"

definition isLargeTreasure :: "item_cache \<Rightarrow> string \<Rightarrow> bool" where
  "isLargeTreasure itemCache itemName =
     (case cache_get itemCache itemName of
        Some cached \<Rightarrow> get_prop (block cached ''this'') ''treasure'' = Some (JStr ''large'')
      | None \<Rightarrow> False)"

section \<open>Character inventories and the referenced names\<close>

text \<open>
  \<open>character_inventories.json\<close> maps a character to an object whose \<open>items\<close> holds
  eight buckets of item references. Every level that the code guards is an option:
  a character entry may be \<open>null\<close>, \<open>items\<close> and each bucket may be absent, a bucket
  entry may be \<open>null\<close>, and a reference may lack its \<open>name\<close>. The characters come in
  the order of \<open>Object.values\<close>.
\<close>

datatype item_ref = Item_ref (ref_name: "string option")

type_synonym bucket = "item_ref option list option"

record inventory_items =
  weapons :: bucket
  armor :: bucket
  treasures :: bucket
  great_treasures :: bucket
  spells :: bucket
  natives :: bucket
  other :: bucket
  unknown :: bucket

datatype char_data = Char_data (items: "inventory_items option")

type_synonym inventories = "(string \<times> char_data option) list"

text \<open>A \<open>Set\<close> of strings keeps its members in insertion order; \<open>add\<close> ignores a member.\<close>

definition set_add :: "string list \<Rightarrow> string \<Rightarrow> string list" where
  "set_add s x = (if x \<in> set s then s else s @ [x])"

definition itemArrays :: "inventory_items \<Rightarrow> bucket list" where
  "itemArrays its =
     [weapons its, armor its, treasures its, great_treasures its,
      spells its, natives its, other its, unknown its]"

text \<open>\<open>flat()\<close> splices an array and keeps an absent bucket as one \<open>undefined\<close> entry.\<close>

definition flat_bucket :: "bucket \<Rightarrow> item_ref option list" where
  "flat_bucket b = (case b of None \<Rightarrow> [None] | Some xs \<Rightarrow> xs)"

definition add_item_name :: "item_ref \<Rightarrow> string list \<Rightarrow> string list" where
  "add_item_name item allItems =
     (case ref_name item of
        None \<Rightarrow> allItems
      | Some n \<Rightarrow> if n \<noteq> [] then set_add allItems n else allItems)"

definition add_character_items :: "char_data option \<Rightarrow> string list \<Rightarrow> string list" where
  "add_character_items charData allItems =
     (case charData of
        None \<Rightarrow> allItems
      | Some cd \<Rightarrow>
          (case items cd of
             None \<Rightarrow> allItems
           | Some its \<Rightarrow>
               fold add_item_name
                 (List.map_filter id (concat (map flat_bucket (itemArrays its)))) allItems))"

definition collectItemNames :: "inventories \<Rightarrow> string list" where
  "collectItemNames invs = fold add_character_items (map snd invs) []"

section \<open>Plain objects as dictionaries\<close>

text \<open>
  The script and the route keep their maps of records in plain objects made by \<open>{}\<close>.
  Such an object has its own properties and a prototype: \<open>Object.prototype\<close>, until an
  assignment to the name \<open>__proto__\<close> makes the assigned record the prototype. A read
  \<open>obj[k]\<close> gives the own property under \<open>k\<close>; without one it gives what the
  prototype chain holds: under \<open>__proto__\<close> the prototype itself, else a field of the
  record that is the prototype, else one of the functions of \<open>Object.prototype\<close>,
  else \<open>undefined\<close>.
\<close>

datatype property_value =
    V_item item
  | V_string string
  | V_blocks "(string \<times> json) list"
  | V_parts "json list"
  | V_function
  | V_object_prototype

definition object_prototype_functions :: "string list" where
  "object_prototype_functions =
     [''constructor'', ''__defineGetter__'', ''__defineSetter__'', ''hasOwnProperty'',
      ''__lookupGetter__'', ''__lookupSetter__'', ''isPrototypeOf'',
      ''propertyIsEnumerable'', ''toString'', ''valueOf'', ''toLocaleString'']"

record dict =
  own_props :: "(string \<times> item) list"
  proto_record :: "item option"

definition empty_dict :: dict where
  "empty_dict = \<lparr>own_props = [], proto_record = None\<rparr>"

text \<open>The fields of a record object \<open>{id, name, attributeBlocks, parts}\<close>.\<close>

definition record_field :: "item \<Rightarrow> string \<Rightarrow> property_value option" where
  "record_field r k =
     (if k = ''id'' then Some (V_string (item_id r))
      else if k = ''name'' then Some (V_string (name r))
      else if k = ''attributeBlocks'' then Some (V_blocks (attributeBlocks r))
      else if k = ''parts'' then Some (V_parts (parts r))
      else None)"

definition inherited :: "dict \<Rightarrow> string \<Rightarrow> property_value option" where
  "inherited d k =
     (if k = ''__proto__''
      then Some (case proto_record d of None \<Rightarrow> V_object_prototype | Some r \<Rightarrow> V_item r)
      else case (case proto_record d of None \<Rightarrow> None | Some r \<Rightarrow> record_field r k) of
             Some v \<Rightarrow> Some v
           | None \<Rightarrow> if k \<in> set object_prototype_functions then Some V_function else None)"

definition dict_get :: "dict \<Rightarrow> string \<Rightarrow> property_value option" where
  "dict_get d k =
     (case map_of (own_props d) k of Some r \<Rightarrow> Some (V_item r) | None \<Rightarrow> inherited d k)"

text \<open>The test \<open>if (obj[k])\<close>: of these values only the empty string is falsy.\<close>

fun truthy_value :: "property_value option \<Rightarrow> bool" where
  "truthy_value None = False"
| "truthy_value (Some (V_string s)) = (s \<noteq> [])"
| "truthy_value (Some v) = True"

text \<open>
  The assignment \<open>obj[k] = record\<close>: under \<open>__proto__\<close>, where the object has no own
  property of that name, it sets the prototype and adds no property.
\<close>

definition dict_set :: "string \<Rightarrow> item \<Rightarrow> dict \<Rightarrow> dict" where
  "dict_set k r d =
     (if k = ''__proto__'' \<and> map_of (own_props d) k = None
      then d\<lparr>proto_record := Some r\<rparr>
      else d\<lparr>own_props := AList.update k r (own_props d)\<rparr>)"

text \<open>The own properties with their values, as \<open>Object.keys\<close> and \<open>JSON.stringify\<close> see them.\<close>

definition own_values :: "dict \<Rightarrow> (string \<times> property_value) list" where
  "own_values d = map (\<lambda>kv. (fst kv, V_item (snd kv))) (own_props d)"

section \<open>The catalog stores\<close>

text \<open>
  A record file holds a document with \<open>id\<close>, \<open>name\<close> and the optional
  \<open>attributeBlocks\<close> and \<open>parts\<close>, or text on which \<open>JSON.parse\<close> throws. A store is a
  directory of entries in the order of \<open>readdirSync\<close>, each a subdirectory of files or
  something else; \<open>None\<close> is a store that does not exist.
\<close>

datatype 'a parsed = Malformed | Parsed 'a

record item_file =
  file_id :: string
  file_name :: string
  file_attributeBlocks :: "(string \<times> json) list option"
  file_parts :: "json list option"

datatype dir_entry = Directory "(string \<times> item_file parsed) list" | Plain_file

type_synonym store = "(string \<times> dir_entry) list option"

datatype error = SyntaxError | TypeError | NetworkError | WriteError

definition mk_item :: "item_file \<Rightarrow> item" where
  "mk_item f =
     \<lparr>item_id = file_id f, name = file_name f,
      attributeBlocks = (case file_attributeBlocks f of None \<Rightarrow> [] | Some b \<Rightarrow> b),
      parts = (case file_parts f of None \<Rightarrow> [] | Some ps \<Rightarrow> ps)\<rparr>"

subsection \<open>The script's loader\<close>

text \<open>
  \<open>loadAllItemData\<close> runs the same loop over the items store and then over the spells
  store: every file whose name ends in \<open>.json\<close> is parsed and stored under its name,
  a later file replacing an earlier one of the same name.
\<close>

fun load_files :: "(string \<times> item_file parsed) list \<Rightarrow> dict \<Rightarrow> error + dict" where
  "load_files [] itemData = Inr itemData"
| "load_files ((file, content) # files) itemData =
     (if \<not> endsWith file ''.json'' then load_files files itemData
      else case content of
             Malformed \<Rightarrow> Inl SyntaxError
           | Parsed f \<Rightarrow> load_files files (dict_set (file_name f) (mk_item f) itemData))"

fun load_dirs :: "(string \<times> dir_entry) list \<Rightarrow> dict \<Rightarrow> error + dict" where
  "load_dirs [] itemData = Inr itemData"
| "load_dirs ((d, Plain_file) # es) itemData = load_dirs es itemData"
| "load_dirs ((d, Directory files) # es) itemData =
     (case load_files files itemData of
        Inl e \<Rightarrow> Inl e
      | Inr itemData' \<Rightarrow> load_dirs es itemData')"

definition load_store :: "store \<Rightarrow> dict \<Rightarrow> error + dict" where
  "load_store st itemData = (case st of None \<Rightarrow> Inr itemData | Some es \<Rightarrow> load_dirs es itemData)"

section \<open>The file system and the write of the artifact\<close>

text \<open>
  A session's directory holds \<open>character_inventories.json\<close>, which may be missing or
  may not parse, and the artifact \<open>precomputed_items.json\<close>, which may be missing. The
  file system is the directory of sessions by session identifier, which may itself be
  missing, and the two catalog stores.
\<close>

record session_dir =
  character_inventories :: "inventories parsed option"
  precomputed_items :: "string option"

record filesystem =
  parsed_sessions :: "(string \<Rightarrow> session_dir option) option"
  items_dir :: store
  spells_dir :: store

definition loadAllItemData :: "filesystem \<Rightarrow> error + dict" where
  "loadAllItemData fs =
     (case load_store (items_dir fs) empty_dict of
        Inl e \<Rightarrow> Inl e
      | Inr itemData \<Rightarrow> load_store (spells_dir fs) itemData)"

definition session_lookup :: "filesystem \<Rightarrow> string \<Rightarrow> session_dir option" where
  "session_lookup fs sessionId =
     (case parsed_sessions fs of None \<Rightarrow> None | Some m \<Rightarrow> m sessionId)"

definition session_store :: "filesystem \<Rightarrow> string \<Rightarrow> session_dir \<Rightarrow> filesystem" where
  "session_store fs sessionId dir =
     (case parsed_sessions fs of
        None \<Rightarrow> fs
      | Some m \<Rightarrow> fs\<lparr>parsed_sessions := Some (m(sessionId := Some dir))\<rparr>)"

text \<open>
  \<open>fs.writeFileSync(path, data)\<close> opens the file at \<open>path\<close> itself for writing, which
  empties it, and then writes \<open>data\<close> into it. What goes wrong is the environment's
  choice: nothing, the open (the file is left as it was), or a write after some
  characters have reached the file.
\<close>

datatype write_fault = No_fault | Open_fails | Write_fails_after nat

definition writeFileSync :: "write_fault \<Rightarrow> string option \<Rightarrow> string \<Rightarrow> error option \<times> string option" where
  "writeFileSync fault file data =
     (case fault of
        No_fault \<Rightarrow> (None, Some data)
      | Open_fails \<Rightarrow> (Some WriteError, file)
      | Write_fails_after k \<Rightarrow> (Some WriteError, Some (take k data)))"

section \<open>Building the session cache\<close>

subsection \<open>The script: \<open>processSession\<close>\<close>

text \<open>
  \<open>sessionItems\<close> starts as \<open>{}\<close> and is only assigned to, so it is its own properties.
  The assignment \<open>sessionItems[itemName] = allItemData[itemName]\<close> stores whatever the
  read gave; under \<open>__proto__\<close> it sets the prototype of \<open>sessionItems\<close> and adds no
  property.
\<close>

definition session_set ::
  "string \<Rightarrow> property_value \<Rightarrow> (string \<times> property_value) list \<Rightarrow> (string \<times> property_value) list"
where
  "session_set k v sessionItems =
     (if k = ''__proto__'' then sessionItems else AList.update k v sessionItems)"

definition match_item ::
  "dict \<Rightarrow> string \<Rightarrow> (string \<times> property_value) list \<times> string list
     \<Rightarrow> (string \<times> property_value) list \<times> string list"
where
  "match_item allItemData itemName acc =
     (case dict_get allItemData itemName of
        Some v \<Rightarrow>
          if truthy_value (Some v) then (session_set itemName v (fst acc), snd acc)
          else (fst acc, snd acc @ [itemName])
      | None \<Rightarrow> (fst acc, snd acc @ [itemName]))"

definition findMatchingItems ::
  "dict \<Rightarrow> string list \<Rightarrow> (string \<times> property_value) list \<times> string list"
where
  "findMatchingItems allItemData allItems = fold (match_item allItemData) allItems ([], [])"

text \<open>
  The result object: its \<open>status\<close> with, on success, \<open>itemsFound\<close>, \<open>totalItems\<close> and
  \<open>missingItems\<close>. \<open>JSON.stringify\<close> is the parameter \<open>stringify\<close>.
\<close>

datatype session_result =
    No_inventories
  | Success (itemsFound: nat) (totalItems: nat) (missingItems: nat)
  | Error error

definition processSession ::
  "((string \<times> property_value) list \<Rightarrow> string) \<Rightarrow> write_fault \<Rightarrow> string \<Rightarrow> dict
     \<Rightarrow> filesystem \<Rightarrow> session_result \<times> filesystem"
where
  "processSession stringify fault sessionId allItemData fs =
     (case session_lookup fs sessionId of
        None \<Rightarrow> (No_inventories, fs)
      | Some dir \<Rightarrow>
          (case character_inventories dir of
             None \<Rightarrow> (No_inventories, fs)
           | Some Malformed \<Rightarrow> (Error SyntaxError, fs)
           | Some (Parsed invs) \<Rightarrow>
               (let allItems = collectItemNames invs;
                    found = findMatchingItems allItemData allItems;
                    sessionItems = fst found;
                    missing = snd found;
                    written = writeFileSync fault (precomputed_items dir) (stringify sessionItems);
                    fs' = session_store fs sessionId (dir\<lparr>precomputed_items := snd written\<rparr>)
                in case fst written of
                     Some e \<Rightarrow> (Error e, fs')
                   | None \<Rightarrow>
                       (Success (length sessionItems) (length allItems) (length missing), fs'))))"

subsection \<open>The route: \<open>POST\<close>\<close>

text \<open>
  \<open>searchForItems\<close> declares \<open>const itemData = JSON.parse(...)\<close> inside its loop. That
  name hides the handler's map \<open>itemData\<close>, so the assignment
  \<open>itemData[itemData.name] = {...}\<close> adds a property to the parsed document, which the
  iteration then drops. The handler's map, the last argument here, passes through as
  it is; a file that does not parse still throws.
\<close>

fun search_files ::
  "(string \<times> item_file parsed) list \<Rightarrow> string list \<Rightarrow> dict \<Rightarrow> error + dict"
where
  "search_files [] itemNames outer = Inr outer"
| "search_files ((file, content) # files) itemNames outer =
     (if \<not> endsWith file ''.json'' then search_files files itemNames outer
      else case content of
             Malformed \<Rightarrow> Inl SyntaxError
           | Parsed itemData \<Rightarrow> search_files files itemNames outer)"

fun search_dirs ::
  "(string \<times> dir_entry) list \<Rightarrow> string list \<Rightarrow> dict \<Rightarrow> error + dict"
where
  "search_dirs [] itemNames outer = Inr outer"
| "search_dirs ((d, Plain_file) # es) itemNames outer = search_dirs es itemNames outer"
| "search_dirs ((d, Directory files) # es) itemNames outer =
     (case search_files files itemNames outer of
        Inl e \<Rightarrow> Inl e
      | Inr outer' \<Rightarrow> search_dirs es itemNames outer')"

definition searchForItems ::
  "store \<Rightarrow> string list \<Rightarrow> dict \<Rightarrow> error + dict"
where
  "searchForItems searchDir itemNames outer =
     (case searchDir of None \<Rightarrow> Inr outer | Some es \<Rightarrow> search_dirs es itemNames outer)"

text \<open>The loop over the spells store names its document \<open>spellData\<close> and writes the map.\<close>

fun spell_files ::
  "(string \<times> item_file parsed) list \<Rightarrow> string list \<Rightarrow> dict \<Rightarrow> error + dict"
where
  "spell_files [] allItems itemData = Inr itemData"
| "spell_files ((file, content) # files) allItems itemData =
     (if \<not> endsWith file ''.json'' then spell_files files allItems itemData
      else case content of
             Malformed \<Rightarrow> Inl SyntaxError
           | Parsed spellData \<Rightarrow>
               spell_files files allItems
                 (if file_name spellData \<in> set allItems
                  then dict_set (file_name spellData) (mk_item spellData) itemData
                  else itemData))"

fun spell_dirs ::
  "(string \<times> dir_entry) list \<Rightarrow> string list \<Rightarrow> dict \<Rightarrow> error + dict"
where
  "spell_dirs [] allItems itemData = Inr itemData"
| "spell_dirs ((d, Plain_file) # es) allItems itemData = spell_dirs es allItems itemData"
| "spell_dirs ((d, Directory files) # es) allItems itemData =
     (case spell_files files allItems itemData of
        Inl e \<Rightarrow> Inl e
      | Inr itemData' \<Rightarrow> spell_dirs es allItems itemData')"

definition search_spells ::
  "store \<Rightarrow> string list \<Rightarrow> dict \<Rightarrow> error + dict"
where
  "search_spells spellsDir allItems itemData =
     (case spellsDir of None \<Rightarrow> Inr itemData | Some es \<Rightarrow> spell_dirs es allItems itemData)"

text \<open>
  The map that the handler persists, and the names it reports as missing
  (\<open>Array.from(allItems).filter(name => !itemData[name])\<close>).
\<close>

definition post_itemData :: "filesystem \<Rightarrow> string list \<Rightarrow> error + dict" where
  "post_itemData fs allItems =
     (case searchForItems (items_dir fs) allItems empty_dict of
        Inl e \<Rightarrow> Inl e
      | Inr itemData \<Rightarrow> search_spells (spells_dir fs) allItems itemData)"

definition post_missingItems :: "dict \<Rightarrow> string list \<Rightarrow> string list" where
  "post_missingItems itemData allItems =
     filter (\<lambda>n. \<not> truthy_value (dict_get itemData n)) allItems"

datatype post_response =
    Sessions_directory_not_found
  | Character_inventories_not_found
  | Failed_to_precompute
  | Precomputed nat nat "string list"

definition POST ::
  "((string \<times> property_value) list \<Rightarrow> string) \<Rightarrow> write_fault \<Rightarrow> string \<Rightarrow> filesystem
     \<Rightarrow> post_response \<times> filesystem"
where
  "POST stringify fault sessionId fs =
     (case parsed_sessions fs of
        None \<Rightarrow> (Sessions_directory_not_found, fs)
      | Some m \<Rightarrow>
          (case session_lookup fs sessionId of
             None \<Rightarrow> (Character_inventories_not_found, fs)
           | Some dir \<Rightarrow>
               (case character_inventories dir of
                  None \<Rightarrow> (Character_inventories_not_found, fs)
                | Some Malformed \<Rightarrow> (Failed_to_precompute, fs)
                | Some (Parsed invs) \<Rightarrow>
                    (let allItems = collectItemNames invs in
                     case post_itemData fs allItems of
                       Inl e \<Rightarrow> (Failed_to_precompute, fs)
                     | Inr itemData \<Rightarrow>
                         (let written = writeFileSync fault (precomputed_items dir)
                                         (stringify (own_values itemData));
                              fs' = session_store fs sessionId (dir\<lparr>precomputed_items := snd written\<rparr>)
                          in case fst written of
                               Some e \<Rightarrow> (Failed_to_precompute, fs')
                             | None \<Rightarrow>
                                 (Precomputed (length (own_props itemData)) (length allItems)
                                    (post_missingItems itemData allItems), fs'))))))"

text \<open>What a reader of the artifact, such as the route \<open>GET\<close>, finds in the file.\<close>

definition read_artifact :: "filesystem \<Rightarrow> string \<Rightarrow> string option" where
  "read_artifact fs sessionId =
     (case session_lookup fs sessionId of None \<Rightarrow> None | Some dir \<Rightarrow> precomputed_items dir)"

section \<open>The page: the runtime item cache\<close>

text \<open>
  A \<open>fetch\<close> rejects (\<open>None\<close>) or answers with its \<open>ok\<close> flag and a body on which
  \<open>json()\<close> rejects, gives \<open>null\<close>, or gives a document. The state is the cache and
  the log of the names requested from the lookup service.
\<close>

datatype 'a body = Json_rejects | Json_null | Json_data 'a

datatype 'a response = Response (ok: bool) (body: "'a body")

record page_state =
  itemCache :: item_cache
  requests :: "string list"

text \<open>
  The body of \<open>try\<close> in \<open>fetchItem\<close> after the request is sent; the document's
  content is its \<open>data.item\<close>, \<open>Undefined\<close> when it has none.
\<close>

definition fetchItem_try ::
  "cached_value response option \<Rightarrow> page_state \<Rightarrow> string \<Rightarrow> error + cached_value \<times> page_state"
where
  "fetchItem_try answer st itemName =
     (case answer of
        None \<Rightarrow> Inl NetworkError
      | Some resp \<Rightarrow>
          if \<not> ok resp then Inr (Null, st)
          else (case body resp of
                  Json_rejects \<Rightarrow> Inl SyntaxError
                | Json_null \<Rightarrow> Inl TypeError
                | Json_data item \<Rightarrow>
                    Inr (item, st\<lparr>itemCache := AList.update itemName item (itemCache st)\<rparr>)))"

text \<open>\<open>fetchItem\<close>: the cached record, or the request with \<open>catch\<close> turning a throw into \<open>null\<close>.\<close>

definition fetchItem ::
  "(string \<Rightarrow> cached_value response option) \<Rightarrow> page_state \<Rightarrow> string
     \<Rightarrow> error + cached_value \<times> page_state"
where
  "fetchItem service st itemName =
     (case cache_get (itemCache st) itemName of
        Some cached \<Rightarrow> Inr (Item cached, st)
      | None \<Rightarrow>
          (let st' = st\<lparr>requests := requests st @ [itemName]\<rparr>
           in case fetchItem_try (service itemName) st' itemName of
                Inl e \<Rightarrow> Inr (Null, st')
              | Inr res \<Rightarrow> Inr res))"

text \<open>
  The step of \<open>fetchAllSessionData\<close> that takes the precomputed items:
  \<open>setItemCache(itemsData)\<close> makes the document the new cache. A request that rejected
  is \<open>None\<close>; a throw is caught and leaves the cache as it was.
\<close>

definition loadPrecomputedItems ::
  "(string \<times> item) list response option \<Rightarrow> page_state \<Rightarrow> page_state"
where
  "loadPrecomputedItems precomputedItemsResponse st =
     (case precomputedItemsResponse of
        None \<Rightarrow> st
      | Some resp \<Rightarrow>
          if ok resp
          then (case body resp of
                  Json_data itemsData \<Rightarrow>
                    st\<lparr>itemCache := map (\<lambda>kv. (fst kv, Item (snd kv))) itemsData\<rparr>
                | _ \<Rightarrow> st)
          else st)"

text \<open>
  A lookup that gives no document: the request rejects, the answer is not \<open>ok\<close>, or
  \<open>json()\<close> rejects or gives \<open>null\<close>.
\<close>

definition lookup_fails :: "cached_value response option \<Rightarrow> bool" where
  "lookup_fails answer =
     (case answer of
        None \<Rightarrow> True
      | Some resp \<Rightarrow>
          if ok resp then (case body resp of Json_data d \<Rightarrow> False | _ \<Rightarrow> True) else True)"

section \<open>Properties of the referenced names and of the match\<close>












section \<open>Properties of the file system\<close>

lemma session_lookup_store:
  "session_lookup fs sid = Some d \<Longrightarrow> session_lookup (session_store fs sid d') sid = Some d'"
  by (auto simp: session_lookup_def session_store_def split: option.splits)

lemma session_lookup_store_other:
  "sid' \<noteq> sid \<Longrightarrow> session_lookup (session_store fs sid d') sid' = session_lookup fs sid'"
  by (auto simp: session_lookup_def session_store_def split: option.splits)

lemma session_store_store:
  "session_store (session_store fs sid d) sid d' = session_store fs sid d'"
  by (auto simp: session_store_def split: option.splits)

lemma session_store_same:
  "session_lookup fs sid = Some d \<Longrightarrow> session_store fs sid d = fs"
  by (auto simp: session_lookup_def session_store_def fun_upd_idem split: option.splits)

lemma session_store_stores:
  "items_dir (session_store fs sid d) = items_dir fs"
  "spells_dir (session_store fs sid d) = spells_dir fs"
  by (auto simp: session_store_def split: option.splits)

lemma writeFileSync_again:
  "writeFileSync fault (snd (writeFileSync fault file data)) data = writeFileSync fault file data"
  by (cases fault) (simp_all add: writeFileSync_def)

lemma processSession_stores:
  "items_dir (snd (processSession stringify fault sid cat fs)) = items_dir fs"
  "spells_dir (snd (processSession stringify fault sid cat fs)) = spells_dir fs"
  by (auto simp: processSession_def Let_def session_store_stores
      split: option.splits parsed.splits)

section \<open>Properties of the name heuristic and of the structural rules\<close>

lemma toLowerChar_idem: "toLowerChar (toLowerChar c) = toLowerChar c"
  unfolding toLowerChar_def Let_def by auto

lemma toLowerCase_idem: "toLowerCase (toLowerCase s) = toLowerCase s"
  by (simp add: toLowerCase_def toLowerChar_idem)

lemma has_block_truthy: "has_block r k \<Longrightarrow> truthy (block r k)"
  by (auto simp: has_block_def split: option.splits json.splits)

lemma getItemCategory_absent:
  "cache_get c n = None \<Longrightarrow> getItemCategory c n = categorizeItemByName n"
  by (simp add: getItemCategory_def)

lemma broadsword_weapon: "categorizeItemByName ''Broadsword'' = Weapon"
  by code_simp

lemma great_treasure_of_the_dwarves:
  "categorizeItemByName ''Great Treasure of the Dwarves'' = Great_treasure"
  by code_simp

lemma mystery_box_other: "categorizeItemByName ''Mystery Box'' = Other"
  by code_simp

section \<open>Properties of the route's search\<close>

lemma search_files_outer: "search_files files names outer = Inr x \<Longrightarrow> x = outer"
  by (induction files names outer rule: search_files.induct)
     (auto split: if_splits parsed.splits)

lemma search_dirs_outer: "search_dirs es names outer = Inr x \<Longrightarrow> x = outer"
  by (induction es names outer rule: search_dirs.induct)
     (auto split: sum.splits dest: search_files_outer)

lemma searchForItems_outer: "searchForItems st names outer = Inr x \<Longrightarrow> x = outer"
  by (auto simp: searchForItems_def split: option.splits dest: search_dirs_outer)

section \<open>The claims about the session cache build\<close>

text \<open>
  Claim C1: for every referenced name, the build puts the catalog's record for it into
  the persisted map whenever the items store or the spells store holds a record of
  that name, and reports the name as missing otherwise; the build on demand, the
  route \<open>POST\<close>, included. The script does so, the route does not: with one record
  \<open>Short Sword\<close> in the items store and one character carrying a \<open>Short Sword\<close>, the
  script's loader finds the record and its match keeps it, while the route persists
  the empty map and reports \<open>Short Sword\<close> as missing, 0 found of 1.
\<close>

theorem post_drops_items_store_record:
  "(let short_sword = \<lparr>file_id = ''101'', file_name = ''Short Sword'',
                        file_attributeBlocks = None, file_parts = None\<rparr>;
        invs = [(''Amazon'', Some (Char_data (Some
                  \<lparr>weapons = Some [Some (Item_ref (Some ''Short Sword''))], armor = None,
                   treasures = None, great_treasures = None, spells = None, natives = None,
                   other = None, unknown = None\<rparr>)))];
        fs0 = \<lparr>parsed_sessions = Some (\<lambda>s. if s = ''s1''
                   then Some \<lparr>character_inventories = Some (Parsed invs),
                              precomputed_items = None\<rparr>
                   else None),
               items_dir = Some [(''weapon'', Directory [(''Short Sword.json'', Parsed short_sword)])],
               spells_dir = None\<rparr>;
        catalog = \<lparr>own_props = [(''Short Sword'', mk_item short_sword)], proto_record = None\<rparr>
    in collectItemNames invs = [''Short Sword'']
       \<and> loadAllItemData fs0 = Inr catalog
       \<and> findMatchingItems catalog [''Short Sword'']
           = ([(''Short Sword'', V_item (mk_item short_sword))], [])
       \<and> post_itemData fs0 [''Short Sword''] = Inr empty_dict
       \<and> fst (POST stringify No_fault ''s1'' fs0) = Precomputed 0 1 [''Short Sword'']
       \<and> read_artifact (snd (POST stringify No_fault ''s1'' fs0)) ''s1'' = Some (stringify []))"
  by (simp add: Let_def collectItemNames_def add_character_items_def itemArrays_def
      flat_bucket_def add_item_name_def set_add_def
      loadAllItemData_def load_store_def endsWith_def findMatchingItems_def match_item_def
      post_itemData_def searchForItems_def search_spells_def POST_def session_lookup_def
      session_store_def writeFileSync_def read_artifact_def post_missingItems_def
      empty_dict_def dict_set_def dict_get_def inherited_def session_set_def own_values_def
      object_prototype_functions_def)



text \<open>
  Claim C5: building twice is building once. A second run of \<open>processSession\<close> on the
  file system that the first run left, with the same catalog and under the same
  behaviour of the write, returns the same result and leaves the same file system,
  the artifact included; the first run does not change what the catalog loads.
\<close>

theorem processSession_twice:
  "processSession stringify fault sid cat (snd (processSession stringify fault sid cat fs))
     = processSession stringify fault sid cat fs
   \<and> loadAllItemData (snd (processSession stringify fault sid cat fs)) = loadAllItemData fs"
proof
  show "loadAllItemData (snd (processSession stringify fault sid cat fs)) = loadAllItemData fs"
    by (simp add: loadAllItemData_def processSession_stores cong: sum.case_cong)
  show "processSession stringify fault sid cat (snd (processSession stringify fault sid cat fs))
     = processSession stringify fault sid cat fs"
  proof (cases "session_lookup fs sid")
    case None
    then show ?thesis by (simp add: processSession_def)
  next
    case lookup: (Some dir)
    show ?thesis
    proof (cases "character_inventories dir")
      case None
      with lookup show ?thesis by (simp add: processSession_def)
    next
      case (Some p)
      show ?thesis
      proof (cases p)
        case Malformed
        with Some lookup show ?thesis
          by (simp add: processSession_def)
      next
        case (Parsed invs)
        with Some lookup show ?thesis
          by (auto simp: processSession_def Let_def session_lookup_store session_store_store
              writeFileSync_again split: option.splits)
      qed
    qed
  qed
qed

text \<open>
  Claim C6 says that a build writes its artifact atomically: no reader finds a
  truncated artifact, and a failed write leaves the previous artifact as it was. The
  build calls \<open>fs.writeFileSync\<close> on the artifact's own path. Where the session's
  artifact is \<open>{}\<close> and the write fails after one character, the build reports the
  error and a reader finds \<open>{\<close> in place of the previous artifact.
\<close>

theorem failed_write_truncates_artifact_counterexample:
  "(let fs0 = \<lparr>parsed_sessions = Some (\<lambda>s. if s = ''s1''
                   then Some \<lparr>character_inventories = Some (Parsed []),
                              precomputed_items = Some ''{}''\<rparr>
                   else None),
               items_dir = None, spells_dir = None\<rparr>;
        run = processSession (\<lambda>d. ''{}'') (Write_fails_after 1) ''s1'' empty_dict fs0
    in fst run = Error WriteError
       \<and> read_artifact fs0 ''s1'' = Some ''{}''
       \<and> read_artifact (snd run) ''s1'' = Some ''{'')"
  by (simp add: Let_def processSession_def session_lookup_def session_store_def
      collectItemNames_def findMatchingItems_def writeFileSync_def read_artifact_def)

text \<open>
  Claim C6 as amended: a build, by the script or by the route, writes the artifact in
  place and changes nothing else in the file system. If the write succeeds the
  artifact is the serialised map and the build reports success. If the write fails
  the build reports the failure: the artifact is then as it was before when the file
  could not be opened, and is the first \<open>k\<close> characters of the new data when the
  write failed after \<open>k\<close> characters.
\<close>

theorem artifact_after_write:
  assumes "session_lookup fs sid = Some dir"
    and "character_inventories dir = Some (Parsed invs)"
  shows "(let data = stringify (fst (findMatchingItems cat (collectItemNames invs)));
             run = processSession stringify fault sid cat fs
         in snd run = session_store fs sid (dir\<lparr>precomputed_items := read_artifact (snd run) sid\<rparr>)
            \<and> (case fault of
                  No_fault \<Rightarrow>
                    read_artifact (snd run) sid = Some data \<and> (\<exists>a b c. fst run = Success a b c)
                | Open_fails \<Rightarrow>
                    read_artifact (snd run) sid = read_artifact fs sid \<and> snd run = fs
                    \<and> fst run = Error WriteError
                | Write_fails_after k \<Rightarrow>
                    read_artifact (snd run) sid = Some (take k data)
                    \<and> fst run = Error WriteError)
            \<and> (\<forall>sid'. sid' \<noteq> sid \<longrightarrow> session_lookup (snd run) sid' = session_lookup fs sid'))
     \<and> (\<forall>itemData. post_itemData fs (collectItemNames invs) = Inr itemData \<longrightarrow>
         (let data = stringify (own_values itemData);
              run = POST stringify fault sid fs
          in snd run = session_store fs sid (dir\<lparr>precomputed_items := read_artifact (snd run) sid\<rparr>)
             \<and> (case fault of
                   No_fault \<Rightarrow>
                     read_artifact (snd run) sid = Some data
                     \<and> (\<exists>a b c. fst run = Precomputed a b c)
                 | Open_fails \<Rightarrow>
                     read_artifact (snd run) sid = read_artifact fs sid \<and> snd run = fs
                     \<and> fst run = Failed_to_precompute
                 | Write_fails_after k \<Rightarrow>
                     read_artifact (snd run) sid = Some (take k data)
                     \<and> fst run = Failed_to_precompute)
             \<and> (\<forall>sid'. sid' \<noteq> sid \<longrightarrow>
                   session_lookup (snd run) sid' = session_lookup fs sid')))"
proof
  show "(let data = stringify (fst (findMatchingItems cat (collectItemNames invs)));
             run = processSession stringify fault sid cat fs
         in snd run = session_store fs sid (dir\<lparr>precomputed_items := read_artifact (snd run) sid\<rparr>)
            \<and> (case fault of
                  No_fault \<Rightarrow>
                    read_artifact (snd run) sid = Some data \<and> (\<exists>a b c. fst run = Success a b c)
                | Open_fails \<Rightarrow>
                    read_artifact (snd run) sid = read_artifact fs sid \<and> snd run = fs
                    \<and> fst run = Error WriteError
                | Write_fails_after k \<Rightarrow>
                    read_artifact (snd run) sid = Some (take k data)
                    \<and> fst run = Error WriteError)
            \<and> (\<forall>sid'. sid' \<noteq> sid \<longrightarrow> session_lookup (snd run) sid' = session_lookup fs sid'))"
    using assms
    by (cases fault)
      (auto simp: Let_def processSession_def writeFileSync_def read_artifact_def
        session_lookup_store session_lookup_store_other session_store_same)
next
  from assms(1) obtain m where m: "parsed_sessions fs = Some m"
    by (auto simp: session_lookup_def split: option.splits)
  show "\<forall>itemData. post_itemData fs (collectItemNames invs) = Inr itemData \<longrightarrow>
         (let data = stringify (own_values itemData);
              run = POST stringify fault sid fs
          in snd run = session_store fs sid (dir\<lparr>precomputed_items := read_artifact (snd run) sid\<rparr>)
             \<and> (case fault of
                   No_fault \<Rightarrow>
                     read_artifact (snd run) sid = Some data
                     \<and> (\<exists>a b c. fst run = Precomputed a b c)
                 | Open_fails \<Rightarrow>
                     read_artifact (snd run) sid = read_artifact fs sid \<and> snd run = fs
                     \<and> fst run = Failed_to_precompute
                 | Write_fails_after k \<Rightarrow>
                     read_artifact (snd run) sid = Some (take k data)
                     \<and> fst run = Failed_to_precompute)
             \<and> (\<forall>sid'. sid' \<noteq> sid \<longrightarrow>
                   session_lookup (snd run) sid' = session_lookup fs sid'))"
    using assms m
    by (cases fault)
      (auto simp: Let_def POST_def writeFileSync_def read_artifact_def
        session_lookup_store session_lookup_store_other session_store_same)
qed

text \<open>
  The amended claim C6 at a session whose wizard carries the spell \<open>Fiery Blast\<close> and
  whose previous artifact is \<open>old\<close>, with a serialiser that lists the keys: for a write
  that succeeds, for one that fails after three characters, and for a file that cannot
  be opened.
\<close>

theorem artifact_after_write_witness:
  "(let invs = [(''Wizard'', Some (Char_data (Some
                  \<lparr>weapons = None, armor = None, treasures = None, great_treasures = None,
                   spells = Some [Some (Item_ref (Some ''Fiery Blast''))], natives = None,
                   other = None, unknown = None\<rparr>)))];
        dir = \<lparr>character_inventories = Some (Parsed invs), precomputed_items = Some ''old''\<rparr>;
        fiery_blast = \<lparr>file_id = ''301'', file_name = ''Fiery Blast'',
                       file_attributeBlocks = None, file_parts = None\<rparr>;
        fs0 = \<lparr>parsed_sessions = Some (\<lambda>s. if s = ''s1'' then Some dir else None),
               items_dir = None,
               spells_dir = Some [(''IV'', Directory [(''Fiery Blast.json'', Parsed fiery_blast)])]\<rparr>;
        catalog = \<lparr>own_props = [(''Fiery Blast'', mk_item fiery_blast)], proto_record = None\<rparr>;
        stringify = (\<lambda>d. ''{'' @ concat (map fst d) @ ''}'')
    in read_artifact (snd (processSession stringify No_fault ''s1'' catalog fs0)) ''s1''
         = Some ''{Fiery Blast}''
       \<and> fst (processSession stringify (Write_fails_after 3) ''s1'' catalog fs0) = Error WriteError
       \<and> read_artifact (snd (processSession stringify (Write_fails_after 3) ''s1'' catalog fs0)) ''s1''
         = Some ''{Fi''
       \<and> fst (processSession stringify Open_fails ''s1'' catalog fs0) = Error WriteError
       \<and> read_artifact (snd (processSession stringify Open_fails ''s1'' catalog fs0)) ''s1''
         = Some ''old''
       \<and> read_artifact (snd (POST stringify No_fault ''s1'' fs0)) ''s1'' = Some ''{Fiery Blast}''
       \<and> fst (POST stringify (Write_fails_after 3) ''s1'' fs0) = Failed_to_precompute
       \<and> read_artifact (snd (POST stringify (Write_fails_after 3) ''s1'' fs0)) ''s1''
         = Some ''{Fi'')"
proof -
  let ?invs = "[(''Wizard'', Some (Char_data (Some
                  \<lparr>weapons = None, armor = None, treasures = None, great_treasures = None,
                   spells = Some [Some (Item_ref (Some ''Fiery Blast''))], natives = None,
                   other = None, unknown = None\<rparr>)))]"
  let ?dir = "\<lparr>character_inventories = Some (Parsed ?invs), precomputed_items = Some ''old''\<rparr>"
  let ?blast = "\<lparr>file_id = ''301'', file_name = ''Fiery Blast'',
                       file_attributeBlocks = None, file_parts = None\<rparr>"
  let ?fs = "\<lparr>parsed_sessions = Some (\<lambda>s. if s = ''s1'' then Some ?dir else None),
               items_dir = None,
               spells_dir = Some [(''IV'', Directory [(''Fiery Blast.json'', Parsed ?blast)])]\<rparr>"
  let ?cat = "\<lparr>own_props = [(''Fiery Blast'', mk_item ?blast)], proto_record = None\<rparr>"
  let ?str = "\<lambda>d :: (string \<times> property_value) list. ''{'' @ concat (map fst d) @ ''}''"
  have look: "session_lookup ?fs ''s1'' = Some ?dir"
    by (simp add: session_lookup_def)
  have inv: "character_inventories ?dir = Some (Parsed ?invs)"
    by simp
  have names: "collectItemNames ?invs = [''Fiery Blast'']"
    by (simp add: collectItemNames_def add_character_items_def itemArrays_def
        flat_bucket_def add_item_name_def set_add_def)
  have found: "findMatchingItems ?cat [''Fiery Blast'']
      = ([(''Fiery Blast'', V_item (mk_item ?blast))], [])"
    by (simp add: findMatchingItems_def match_item_def dict_get_def session_set_def)
  have post: "post_itemData ?fs [''Fiery Blast''] = Inr ?cat"
    by (simp add: post_itemData_def searchForItems_def search_spells_def endsWith_def
        empty_dict_def dict_set_def)
  show ?thesis
    using artifact_after_write [OF look inv, of ?str ?cat No_fault]
      artifact_after_write [OF look inv, of ?str ?cat "Write_fails_after 3"]
      artifact_after_write [OF look inv, of ?str ?cat Open_fails]
    by (simp add: Let_def names found post own_values_def read_artifact_def look)
qed

section \<open>The claims about the classification\<close>

text \<open>
  Claim C3: the structural rules apply in a fixed order and the first match wins. For
  the record \<open>r\<close> that the cache holds under a name: with an \<open>intact\<close> and a \<open>damaged\<close>
  block it is armor, whatever else it holds, an \<open>unalerted\<close> and an \<open>alerted\<close> block
  included; the weapon rule is second, \<open>this.spell\<close> third and \<open>this.base_price\<close>
  fourth, where \<open>this.treasure\<close> being \<open>large\<close> selects the large treasure. The code
  tests each value for truth; a block is a structured payload, which is truthy.
\<close>

theorem structural_rules_in_order:
  assumes "cache_get c n = Some r"
  shows "(has_block r ''intact'' \<and> has_block r ''damaged'' \<longrightarrow> getItemCategory c n = Armor)
    \<and> (\<not> (truthy (block r ''intact'') \<and> truthy (block r ''damaged''))
        \<and> has_block r ''unalerted'' \<and> has_block r ''alerted'' \<longrightarrow> getItemCategory c n = Weapon)
    \<and> (\<not> (truthy (block r ''intact'') \<and> truthy (block r ''damaged''))
        \<and> \<not> (truthy (block r ''unalerted'') \<and> truthy (block r ''alerted''))
        \<and> truthy (get_prop (block r ''this'') ''spell'') \<longrightarrow> getItemCategory c n = Spell)
    \<and> (\<not> (truthy (block r ''intact'') \<and> truthy (block r ''damaged''))
        \<and> \<not> (truthy (block r ''unalerted'') \<and> truthy (block r ''alerted''))
        \<and> \<not> truthy (get_prop (block r ''this'') ''spell'')
        \<and> truthy (get_prop (block r ''this'') ''base_price'') \<longrightarrow>
          getItemCategory c n =
            (if get_prop (block r ''this'') ''treasure'' = Some (JStr ''large'')
             then Large_treasure else Treasure))"
  using assms by (auto simp: getItemCategory_def Let_def dest: has_block_truthy)

text \<open>
  Claim C3 at a record that has the two armor blocks and the two weapon blocks, and at
  a record with a price and the large treasure mark.
\<close>

theorem structural_rules_in_order_witness:
  "getItemCategory
     [(''Odd Relic'', Item \<lparr>item_id = ''7'', name = ''Odd Relic'',
         attributeBlocks = [(''intact'', JObj []), (''damaged'', JObj []),
                            (''unalerted'', JObj []), (''alerted'', JObj [])],
         parts = []\<rparr>)]
     ''Odd Relic'' = Armor
   \<and> getItemCategory
     [(''Golden Crown'', Item \<lparr>item_id = ''8'', name = ''Golden Crown'',
         attributeBlocks = [(''this'', JObj [(''base_price'', JStr ''50''),
                                             (''treasure'', JStr ''large'')])],
         parts = []\<rparr>)]
     ''Golden Crown'' = Large_treasure"
  using structural_rules_in_order
    [of "[(''Odd Relic'', Item \<lparr>item_id = ''7'', name = ''Odd Relic'',
         attributeBlocks = [(''intact'', JObj []), (''damaged'', JObj []),
                            (''unalerted'', JObj []), (''alerted'', JObj [])],
         parts = []\<rparr>)]" "''Odd Relic''"
        "\<lparr>item_id = ''7'', name = ''Odd Relic'',
         attributeBlocks = [(''intact'', JObj []), (''damaged'', JObj []),
                            (''unalerted'', JObj []), (''alerted'', JObj [])],
         parts = []\<rparr>"]
    structural_rules_in_order
    [of "[(''Golden Crown'', Item \<lparr>item_id = ''8'', name = ''Golden Crown'',
         attributeBlocks = [(''this'', JObj [(''base_price'', JStr ''50''),
                                             (''treasure'', JStr ''large'')])],
         parts = []\<rparr>)]" "''Golden Crown''"
        "\<lparr>item_id = ''8'', name = ''Golden Crown'',
         attributeBlocks = [(''this'', JObj [(''base_price'', JStr ''50''),
                                             (''treasure'', JStr ''large'')])],
         parts = []\<rparr>"]
  by (simp add: cache_get_def has_block_def block_def)

lemma categorizeItemByName_toLowerCase:
  "categorizeItemByName (toLowerCase m) = categorizeItemByName m"
  by (simp add: categorizeItemByName_def toLowerCase_idem)

text \<open>
  Claim C7: for a name without a cached record the classification is the name heuristic,
  which ignores case: \<open>Broadsword\<close> is a weapon, \<open>Great Treasure of the Dwarves\<close> is a
  great treasure, by the rule for \<open>great\<close> with \<open>treasure\<close> that comes before the
  rules for treasures and natives, and \<open>Mystery Box\<close> is \<open>other\<close>.
\<close>

theorem name_heuristic_fallback:
  assumes "cache_get c ''Broadsword'' = None"
    and "cache_get c ''Great Treasure of the Dwarves'' = None"
    and "cache_get c ''Mystery Box'' = None"
  shows "getItemCategory c ''Broadsword'' = Weapon
    \<and> getItemCategory c ''Great Treasure of the Dwarves'' = Great_treasure
    \<and> getItemCategory c ''Mystery Box'' = Other
    \<and> categorizeItemByName (toLowerCase m) = categorizeItemByName m"
  using assms
  by (simp add: getItemCategory_absent broadsword_weapon great_treasure_of_the_dwarves
      mystery_box_other categorizeItemByName_toLowerCase)

text \<open>Claim C7 on the empty cache.\<close>

theorem name_heuristic_fallback_witness:
  "getItemCategory [] ''Broadsword'' = Weapon
    \<and> getItemCategory [] ''Great Treasure of the Dwarves'' = Great_treasure
    \<and> getItemCategory [] ''Mystery Box'' = Other"
  using name_heuristic_fallback [of "[]"]
  by (simp add: cache_get_def)

section \<open>The claims about the runtime item cache\<close>

text \<open>
  Claim C4: for a name under which the cache holds a record, \<open>fetchItem\<close> returns that
  record and leaves the state as it is; the log of requests is part of the state, so
  no lookup is made.
\<close>

theorem fetchItem_cached:
  assumes "map_of (itemCache st) n = Some (Item r)"
  shows "fetchItem service st n = Inr (Item r, st)"
  using assms by (simp add: fetchItem_def cache_get_def)

text \<open>Claim C4 at a cache that holds \<open>Short Sword\<close>, with a service that would reject.\<close>

theorem fetchItem_cached_witness:
  "fetchItem (\<lambda>n. None)
     \<lparr>itemCache = [(''Short Sword'', Item \<lparr>item_id = ''101'', name = ''Short Sword'',
                       attributeBlocks = [], parts = []\<rparr>)],
      requests = []\<rparr> ''Short Sword''
   = Inr (Item \<lparr>item_id = ''101'', name = ''Short Sword'', attributeBlocks = [], parts = []\<rparr>,
          \<lparr>itemCache = [(''Short Sword'', Item \<lparr>item_id = ''101'', name = ''Short Sword'',
                       attributeBlocks = [], parts = []\<rparr>)],
           requests = []\<rparr>)"
  using fetchItem_cached
    [of "\<lparr>itemCache = [(''Short Sword'', Item \<lparr>item_id = ''101'', name = ''Short Sword'',
                       attributeBlocks = [], parts = []\<rparr>)],
      requests = []\<rparr>" "''Short Sword''"
      "\<lparr>item_id = ''101'', name = ''Short Sword'', attributeBlocks = [], parts = []\<rparr>"
      "\<lambda>n. None"]
  by simp

text \<open>
  Claim C8: a failed lookup is not remembered. When the cache has no record for the name
  and the lookup fails, \<open>fetchItem\<close> returns \<open>null\<close> and leaves the cache as it was,
  with one request logged; the next \<open>fetchItem\<close> for that name, whatever the service
  then answers, sends the request again.
\<close>

theorem fetchItem_failure_not_cached:
  assumes "cache_get (itemCache st) n = None" and "lookup_fails (service n)"
  shows "fetchItem service st n = Inr (Null, st\<lparr>requests := requests st @ [n]\<rparr>)
    \<and> (\<forall>service'. \<exists>res st''.
          fetchItem service' (st\<lparr>requests := requests st @ [n]\<rparr>) n = Inr (res, st'')
          \<and> requests st'' = requests st @ [n, n])"
  using assms
  by (auto simp: fetchItem_def fetchItem_try_def lookup_fails_def Let_def
      split: option.splits body.splits sum.splits)

text \<open>Claim C8 at the empty cache, for an answer that is not \<open>ok\<close>.\<close>

theorem fetchItem_failure_not_cached_witness:
  "fetchItem (\<lambda>n. Some (Response False Json_rejects)) \<lparr>itemCache = [], requests = []\<rparr>
      ''Unknown Relic''
     = Inr (Null, \<lparr>itemCache = [], requests = [''Unknown Relic'']\<rparr>)
   \<and> (\<exists>res st''.
         fetchItem (\<lambda>n. None) \<lparr>itemCache = [], requests = [''Unknown Relic'']\<rparr> ''Unknown Relic''
           = Inr (res, st'')
         \<and> requests st'' = [''Unknown Relic'', ''Unknown Relic''])"
  using fetchItem_failure_not_cached
    [of "\<lparr>itemCache = [], requests = []\<rparr>" "''Unknown Relic''"
        "\<lambda>n. Some (Response False Json_rejects)"]
  by (simp add: cache_get_def lookup_fails_def)

text \<open>A call for another name leaves what the cache holds for this one.\<close>

lemma fetchItem_other_name:
  assumes "m \<noteq> n" and "fetchItem service st m = Inr (res, st')"
  shows "cache_get (itemCache st') n = cache_get (itemCache st) n"
  using assms
  by (auto simp: fetchItem_def fetchItem_try_def Let_def cache_get_def AList.update_conv'
      split: option.splits body.splits sum.splits if_splits)

text \<open>
  Claim C10: \<open>fetchItem\<close> always returns a value and never throws; when the cache has no
  record for the name and the lookup fails, by an answer that is not \<open>ok\<close> or by a
  request or a document that throws, the value is \<open>null\<close>.
\<close>

theorem fetchItem_total:
  "\<exists>res st'. fetchItem service st n = Inr (res, st') \<and>
     (cache_get (itemCache st) n = None \<and> lookup_fails (service n) \<longrightarrow> res = Null)"
  by (auto simp: fetchItem_def fetchItem_try_def lookup_fails_def Let_def
      split: option.splits body.splits sum.splits)

text \<open>Claim C10 at the empty cache, for a document on which \<open>json()\<close> rejects.\<close>

theorem fetchItem_total_witness:
  "\<exists>st'. fetchItem (\<lambda>n. Some (Response True Json_rejects)) \<lparr>itemCache = [], requests = []\<rparr>
      ''Mystery Box'' = Inr (Null, st')"
  using fetchItem_total
    [of "\<lambda>n. Some (Response True Json_rejects)" "\<lparr>itemCache = [], requests = []\<rparr>"
        "''Mystery Box''"]
  by (auto simp add: cache_get_def lookup_fails_def)

lemma map_of_map_Item:
  "map_of (map (\<lambda>kv. (fst kv, Item (snd kv))) d) k = map_option Item (map_of d k)"
  by (induction d) auto

text \<open>
  Claim C9 says that seeding the cache merges: every precomputed entry is in the cache
  afterwards and every other entry of the cache stays. \<open>setItemCache(itemsData)\<close>
  replaces the cache: a cache that holds \<open>Short Sword\<close>, seeded with a precomputed cache
  of \<open>Battle Armor\<close> alone, holds no \<open>Short Sword\<close> afterwards.
\<close>

theorem seed_drops_entry_counterexample:
  "(let short_sword = \<lparr>item_id = ''101'', name = ''Short Sword'', attributeBlocks = [], parts = []\<rparr>;
        battle_armor = \<lparr>item_id = ''202'', name = ''Battle Armor'', attributeBlocks = [], parts = []\<rparr>;
        st = \<lparr>itemCache = [(''Short Sword'', Item short_sword)], requests = [''Short Sword'']\<rparr>;
        st' = loadPrecomputedItems
                (Some (Response True (Json_data [(''Battle Armor'', battle_armor)]))) st
    in map_of (itemCache st) ''Short Sword'' = Some (Item short_sword)
       \<and> map_of [(''Battle Armor'', battle_armor)] ''Short Sword'' = None
       \<and> map_of (itemCache st') ''Short Sword'' = None)"
  by (simp add: Let_def loadPrecomputedItems_def)

text \<open>
  Claim C9 as amended: seeding replaces the cache. Afterwards the cache holds under
  every name what the precomputed cache holds under it, and nothing under a name that
  the precomputed cache lacks; the log of requests is as before.
\<close>

theorem seed_replaces_cache:
  "map_of (itemCache (loadPrecomputedItems (Some (Response True (Json_data d))) st)) k
     = map_option Item (map_of d k)
   \<and> requests (loadPrecomputedItems (Some (Response True (Json_data d))) st) = requests st"
  by (simp add: loadPrecomputedItems_def map_of_map_Item)

end
